theory Spec2Isabelle
  imports Main "HOL-Library.Sublist"
begin

section \<open>Python values used by the Confluence tools\<close>

text \<open>
  The tools of \<^verbatim>\<open>mcp_atlassian/servers/confluence.py\<close> are thin handlers around a
  fetcher object. Each handler is modelled from the point where the fetcher handle has
  been obtained (\<^verbatim>\<open>confluence_fetcher = await get_confluence_fetcher(ctx)\<close>); the
  lookup itself and the \<^verbatim>\<open>check_write_access\<close> decorator belong to other modules
  and run before the handler's own logic. For \<open>delete_page\<close>, whose claim is about
  every way the tool can end, these two steps are modelled as well
  (\<open>delete_page_tool\<close>).

  Python strings are modelled as \<open>string\<close>. An exception is an instance of
  \<^verbatim>\<open>Exception\<close>, the class that the handlers' \<^verbatim>\<open>except Exception\<close> clauses catch: it
  carries the name of its class and the text \<^verbatim>\<open>str(e)\<close>.
\<close>

datatype exn = Exn (exn_class: string) (exn_str: string)

abbreviation ValueError :: "string \<Rightarrow> exn" where
  "ValueError msg \<equiv> Exn ''ValueError'' msg"

abbreviation sq :: string where
  "sq \<equiv> [CHR 0x27]"

abbreviation dq :: string where
  "dq \<equiv> [CHR 0x22]"

text \<open>\<^verbatim>\<open>x in s\<close> on strings: \<open>x\<close> occurs in \<open>s\<close> as a contiguous substring.\<close>

fun py_in :: "string \<Rightarrow> string \<Rightarrow> bool" where
  "py_in x [] = (x = [])"
| "py_in x (c # cs) = (prefix x (c # cs) \<or> py_in x cs)"

text \<open>\<^verbatim>\<open>str(n)\<close> for an integer: decimal digits, with a minus sign when negative.\<close>

definition digit_char :: "nat \<Rightarrow> char" where
  \<comment> \<open>the decimal digit \<open>d\<close>, for \<open>d < 10\<close>\<close>
  "digit_char d = ''0123456789'' ! d"

function str_nat :: "nat \<Rightarrow> string" where
  "str_nat n = (if n < 10 then [digit_char n] else str_nat (n div 10) @ [digit_char (n mod 10)])"
  by pat_completeness auto
termination
  by (relation "measure id") auto

declare str_nat.simps [simp del]

definition str_int :: "int \<Rightarrow> string" where
  "str_int i = (if i < 0 then CHR ''-'' # str_nat (nat (- i)) else str_nat (nat i))"

subsection \<open>JSON values and \<^verbatim>\<open>json.dumps(v, indent=2, ensure_ascii=False)\<close>\<close>

datatype json =
    JNull
  | JBool bool
  | JInt int
  | JStr string
  | JList "json list"
  | JObj "(string \<times> json) list"

definition hex_digit :: "nat \<Rightarrow> char" where
  "hex_digit d = (if d < 10 then char_of (48 + d) else char_of (87 + d))"

text \<open>
  With \<^verbatim>\<open>ensure_ascii=False\<close> the encoder escapes the double quote, the backslash and
  the control characters below \<^verbatim>\<open>0x20\<close>; every other character is copied.
\<close>

definition json_escape_char :: "char \<Rightarrow> string" where
  "json_escape_char c =
     (if c = CHR 0x22 then [CHR 0x5C, CHR 0x22]
      else if c = CHR 0x5C then [CHR 0x5C, CHR 0x5C]
      else if c = CHR 0x08 then [CHR 0x5C, CHR ''b'']
      else if c = CHR 0x0C then [CHR 0x5C, CHR ''f'']
      else if c = CHR 0x0A then [CHR 0x5C, CHR ''n'']
      else if c = CHR 0x0D then [CHR 0x5C, CHR ''r'']
      else if c = CHR 0x09 then [CHR 0x5C, CHR ''t'']
      else if of_char c < (32::nat)
        then [CHR 0x5C, CHR ''u'', CHR ''0'', CHR ''0'',
              hex_digit (of_char c div 16), hex_digit (of_char c mod 16)]
      else [c])"

definition json_string :: "string \<Rightarrow> string" where
  "json_string s = dq @ concat (map json_escape_char s) @ dq"

fun join :: "string \<Rightarrow> string list \<Rightarrow> string" where
  "join sep [] = []"
| "join sep [x] = x"
| "join sep (x # y # ys) = x @ sep @ join sep (y # ys)"

definition newline_indent :: "nat \<Rightarrow> string" where
  "newline_indent level = CHR 0x0A # replicate (2 * level) CHR '' ''"

fun dumps_at :: "nat \<Rightarrow> json \<Rightarrow> string" where
  "dumps_at level JNull = ''null''"
| "dumps_at level (JBool b) = (if b then ''true'' else ''false'')"
| "dumps_at level (JInt i) = str_int i"
| "dumps_at level (JStr s) = json_string s"
| "dumps_at level (JList xs) =
     (if xs = [] then ''[]''
      else ''['' @ newline_indent (Suc level)
           @ join ('','' @ newline_indent (Suc level)) (map (dumps_at (Suc level)) xs)
           @ newline_indent level @ '']'')"
| "dumps_at level (JObj kvs) =
     (if kvs = [] then ''{}''
      else ''{'' @ newline_indent (Suc level)
           @ join ('','' @ newline_indent (Suc level))
               (map (\<lambda>kv. json_string (fst kv) @ '': '' @ dumps_at (Suc level) (snd kv)) kvs)
           @ newline_indent level @ ''}'')"

definition json_dumps :: "json \<Rightarrow> string" where
  "json_dumps v = dumps_at 0 v"

section \<open>The fetcher and the handlers' environment\<close>

text \<open>
  A page as the handlers see it: the dictionary \<^verbatim>\<open>page.to_simplified_dict()\<close> and the
  attribute \<^verbatim>\<open>page.content\<close>.
\<close>

record page =
  to_simplified_dict :: json
  content :: string

record children_args =
  ca_page_id :: string
  ca_start :: int
  ca_limit :: int
  ca_expand :: string
  ca_convert_to_markdown :: bool
  ca_include_folders :: bool

record create_args =
  cr_space_key :: string
  cr_title :: string
  cr_body :: string
  cr_parent_id :: "string option"
  cr_is_markdown :: bool
  cr_enable_heading_anchors :: bool
  cr_content_representation :: "string option"
  cr_emoji :: "string option"
  cr_page_width :: "string option"

record update_args =
  up_page_id :: string
  up_title :: string
  up_body :: string
  up_is_minor_edit :: bool
  up_version_comment :: "string option"
  up_is_markdown :: bool
  up_parent_id :: "string option"
  up_enable_heading_anchors :: bool
  up_content_representation :: "string option"
  up_emoji :: "string option"
  up_page_width :: "string option"

text \<open>
  The fetcher is an opaque collaborator. Each of its operations is a function of its
  arguments and of the fetcher's (and the remote server's) state \<open>'s\<close>; it either
  raises or returns, and leaves a new state. \<^verbatim>\<open>get_page_by_title\<close> returns a page or
  \<^verbatim>\<open>None\<close>; \<^verbatim>\<open>get_page\<close> also tests the result of \<^verbatim>\<open>get_page_content\<close> for
  \<^verbatim>\<open>None\<close>, so the model admits it there too.
\<close>

record 's fetcher =
  fetcher_search :: "string \<Rightarrow> int \<Rightarrow> string option \<Rightarrow> 's \<Rightarrow> (exn + page list) \<times> 's"
  fetcher_get_page_content :: "string \<Rightarrow> bool \<Rightarrow> 's \<Rightarrow> (exn + page option) \<times> 's"
  fetcher_get_page_by_title :: "string \<Rightarrow> string \<Rightarrow> bool \<Rightarrow> 's \<Rightarrow> (exn + page option) \<times> 's"
  fetcher_get_page_children :: "children_args \<Rightarrow> 's \<Rightarrow> (exn + page list) \<times> 's"
  fetcher_create_page :: "create_args \<Rightarrow> 's \<Rightarrow> (exn + page) \<times> 's"
  fetcher_update_page :: "update_args \<Rightarrow> 's \<Rightarrow> (exn + page) \<times> 's"
  fetcher_delete_page :: "string \<Rightarrow> 's \<Rightarrow> (exn + bool) \<times> 's"

text \<open>
  What a handler leaves behind: the fetcher's state, the fetcher operations it invoked
  (in order, with their arguments) and the records it sent to the module's logger.
\<close>

datatype fetcher_call =
    Search string int "string option"
  | GetPageContent string bool
  | GetPageByTitle string string bool
  | GetPageChildren children_args
  | CreatePage create_args
  | UpdatePage update_args
  | DeletePage string

datatype level = INFO | WARNING | ERROR

record 's env =
  fetcher_state :: 's
  calls :: "fetcher_call list"
  logged :: "(level \<times> string) list"

definition log_record :: "level \<Rightarrow> string \<Rightarrow> 's env \<Rightarrow> 's env" where
  "log_record lvl msg \<sigma> = \<sigma>\<lparr>logged := logged \<sigma> @ [(lvl, msg)]\<rparr>"

definition invoke :: "fetcher_call \<Rightarrow> ('s \<Rightarrow> 'r \<times> 's) \<Rightarrow> 's env \<Rightarrow> 'r \<times> 's env" where
  "invoke c run \<sigma> =
     (case run (fetcher_state \<sigma>) of
        (r, s') \<Rightarrow> (r, \<sigma>\<lparr>fetcher_state := s', calls := calls \<sigma> @ [c]\<rparr>))"

section \<open>The \<^verbatim>\<open>search\<close> tool\<close>

definition operator_tokens :: "string list" where
  \<open>operator_tokens = [''='', ''~'', ''>'', ''<'', '' AND '', '' OR '', ''currentUser()'']\<close>

definition search ::
  "'s fetcher \<Rightarrow> string \<Rightarrow> int \<Rightarrow> string option \<Rightarrow> 's env \<Rightarrow> (exn + string) \<times> 's env" where
  \<open>search f query limit spaces_filter \<sigma> =
     (if query \<noteq> [] \<and> \<not> list_ex (\<lambda>x. py_in x query) operator_tokens then
        let original_query = query;
            query1 = ''siteSearch ~ "'' @ original_query @ dq;
            \<sigma>1 = log_record INFO
                   (''Converting simple search term to CQL using siteSearch: '' @ query1) \<sigma>
        in case invoke (Search query1 limit spaces_filter)
                  (fetcher_search f query1 limit spaces_filter) \<sigma>1 of
             (Inr pages, \<sigma>2) \<Rightarrow>
               (Inr (json_dumps (JList (map to_simplified_dict pages))), \<sigma>2)
           | (Inl e, \<sigma>2) \<Rightarrow>
               let \<sigma>3 = log_record WARNING
                          (''siteSearch failed ('' @ sq @ exn_str e @ sq
                             @ ''), falling back to text search.'') \<sigma>2;
                   query2 = ''text ~ "'' @ original_query @ dq;
                   \<sigma>4 = log_record INFO
                          (''Falling back to text search with CQL: '' @ query2) \<sigma>3
               in (case invoke (Search query2 limit spaces_filter)
                         (fetcher_search f query2 limit spaces_filter) \<sigma>4 of
                     (Inr pages, \<sigma>5) \<Rightarrow>
                       (Inr (json_dumps (JList (map to_simplified_dict pages))), \<sigma>5)
                   | (Inl e2, \<sigma>5) \<Rightarrow> (Inl e2, \<sigma>5))
      else
        case invoke (Search query limit spaces_filter)
               (fetcher_search f query limit spaces_filter) \<sigma> of
          (Inr pages, \<sigma>1) \<Rightarrow> (Inr (json_dumps (JList (map to_simplified_dict pages))), \<sigma>1)
        | (Inl e, \<sigma>1) \<Rightarrow> (Inl e, \<sigma>1))\<close>

section \<open>The \<^verbatim>\<open>get_page\<close> tool\<close>

text \<open>
  \<^verbatim>\<open>page_id\<close> is declared \<^verbatim>\<open>str | int | None\<close>, \<^verbatim>\<open>title\<close> and \<^verbatim>\<open>space_key\<close> are
  \<^verbatim>\<open>str | None\<close>. The handler tests them for truthiness: \<^verbatim>\<open>None\<close>, the empty string
  and the integer zero count as absent.
\<close>

datatype page_id = IdStr string | IdInt int

fun id_truthy :: "page_id option \<Rightarrow> bool" where
  "id_truthy None = False"
| "id_truthy (Some (IdStr s)) = (s \<noteq> [])"
| "id_truthy (Some (IdInt i)) = (i \<noteq> 0)"

fun id_str :: "page_id option \<Rightarrow> string" where
  "id_str None = ''None''"
| "id_str (Some (IdStr s)) = s"
| "id_str (Some (IdInt i)) = str_int i"

fun str_truthy :: "string option \<Rightarrow> bool" where
  "str_truthy None = False"
| "str_truthy (Some s) = (s \<noteq> [])"

text \<open>
  How the identifier branches of \<^verbatim>\<open>get_page\<close> end: by raising, by returning a
  payload at once, or by falling through to the common tail with \<^verbatim>\<open>page_object\<close>.
\<close>

datatype 'a outcome = Raise exn | Return string | Continue 'a

definition get_page ::
  "'s fetcher \<Rightarrow> page_id option \<Rightarrow> string option \<Rightarrow> string option \<Rightarrow> bool \<Rightarrow> bool
     \<Rightarrow> 's env \<Rightarrow> (exn + string) \<times> 's env" where
  "get_page f page_id title space_key include_metadata convert_to_markdown \<sigma> =
     (let (branch, \<sigma>') =
        (if id_truthy page_id then
           let \<sigma>1 = (if str_truthy title \<or> str_truthy space_key
                      then log_record WARNING
                             ''page_id was provided; title and space_key parameters will be ignored.''
                             \<sigma>
                      else \<sigma>);
               page_id_str = id_str page_id
           in case invoke (GetPageContent page_id_str convert_to_markdown)
                     (fetcher_get_page_content f page_id_str convert_to_markdown) \<sigma>1 of
                (Inr page_object, \<sigma>2) \<Rightarrow> (Continue page_object, \<sigma>2)
              | (Inl e, \<sigma>2) \<Rightarrow>
                  (Return (json_dumps (JObj [(''error'',
                     JStr (''Failed to retrieve page by ID '' @ sq @ id_str page_id @ sq
                           @ '': '' @ exn_str e))])),
                   log_record ERROR
                     (''Error fetching page by ID '' @ sq @ id_str page_id @ sq
                      @ '': '' @ exn_str e) \<sigma>2)
         else if str_truthy title \<and> str_truthy space_key then
           case invoke (GetPageByTitle (the space_key) (the title) convert_to_markdown)
                  (fetcher_get_page_by_title f (the space_key) (the title) convert_to_markdown)
                  \<sigma> of
             (Inl e, \<sigma>1) \<Rightarrow> (Raise e, \<sigma>1)
           | (Inr None, \<sigma>1) \<Rightarrow>
               (Return (json_dumps (JObj [(''error'',
                  JStr (''Page with title '' @ sq @ the title @ sq @ '' not found in space ''
                        @ sq @ the space_key @ sq @ ''.''))])),
                \<sigma>1)
           | (Inr (Some p), \<sigma>1) \<Rightarrow> (Continue (Some p), \<sigma>1)
         else
           (Raise (ValueError
              (''Either '' @ sq @ ''page_id'' @ sq @ '' OR both '' @ sq @ ''title'' @ sq
               @ '' and '' @ sq @ ''space_key'' @ sq @ '' must be provided.'')),
            \<sigma>))
      in case branch of
           Raise e \<Rightarrow> (Inl e, \<sigma>')
         | Return payload \<Rightarrow> (Inr payload, \<sigma>')
         | Continue None \<Rightarrow>
             (Inr (json_dumps
                (JObj [(''error'', JStr ''Page not found with the provided identifiers.'')])),
              \<sigma>')
         | Continue (Some page_object) \<Rightarrow>
             (Inr (json_dumps
                (if include_metadata
                 then JObj [(''metadata'', to_simplified_dict page_object)]
                 else JObj [(''content'', JObj [(''value'', JStr (content page_object))])])),
              \<sigma>'))"

section \<open>The \<^verbatim>\<open>get_page_children\<close> tool\<close>

definition get_page_children ::
  "'s fetcher \<Rightarrow> string \<Rightarrow> string \<Rightarrow> int \<Rightarrow> bool \<Rightarrow> bool \<Rightarrow> int \<Rightarrow> bool
     \<Rightarrow> 's env \<Rightarrow> (exn + string) \<times> 's env" where
  "get_page_children f parent_id expand limit include_content convert_to_markdown start
       include_folders \<sigma> =
     (let expand' =
            (if include_content \<and> \<not> py_in ''body'' expand
             then (if expand \<noteq> [] then expand @ '',body.storage'' else ''body.storage'')
             else expand);
          args = \<lparr>ca_page_id = parent_id, ca_start = start, ca_limit = limit,
                  ca_expand = expand', ca_convert_to_markdown = convert_to_markdown,
                  ca_include_folders = include_folders\<rparr>
      in case invoke (GetPageChildren args) (fetcher_get_page_children f args) \<sigma> of
           (Inr pages, \<sigma>1) \<Rightarrow>
             let child_pages = map to_simplified_dict pages;
                 result = JObj [(''parent_id'', JStr parent_id),
                                (''count'', JInt (int (length child_pages))),
                                (''limit_requested'', JInt limit),
                                (''start_requested'', JInt start),
                                (''results'', JList child_pages)]
             in (Inr (json_dumps result), \<sigma>1)
         | (Inl e, \<sigma>1) \<Rightarrow>
             (Inr (json_dumps
                (JObj [(''error'', JStr (''Failed to get child pages: '' @ exn_str e))])),
              log_record ERROR
                (''Error getting/processing children for page ID '' @ parent_id @ '': ''
                 @ exn_str e) \<sigma>1))"

section \<open>The write tools \<^verbatim>\<open>create_page\<close>, \<^verbatim>\<open>update_page\<close> and \<^verbatim>\<open>delete_page\<close>\<close>

definition invalid_content_format :: "string \<Rightarrow> exn" where
  "invalid_content_format content_format =
     ValueError (''Invalid content_format: '' @ content_format @ ''. Must be '' @ sq
                 @ ''markdown'' @ sq @ '', '' @ sq @ ''wiki'' @ sq @ '', or '' @ sq
                 @ ''storage'' @ sq)"

definition create_page ::
  "'s fetcher \<Rightarrow> string \<Rightarrow> string \<Rightarrow> string \<Rightarrow> string option \<Rightarrow> string \<Rightarrow> bool
     \<Rightarrow> string option \<Rightarrow> string option \<Rightarrow> 's env \<Rightarrow> (exn + string) \<times> 's env" where
  "create_page f space_key title content_arg parent_id content_format enable_heading_anchors
       emoji page_width \<sigma> =
     (if content_format \<notin> set [''markdown'', ''wiki'', ''storage'']
      then (Inl (invalid_content_format content_format), \<sigma>)
      else
        let is_markdown = (content_format = ''markdown'');
            content_representation =
              (if content_format = ''markdown'' then None else Some content_format);
            args = \<lparr>cr_space_key = space_key, cr_title = title, cr_body = content_arg,
                    cr_parent_id = parent_id, cr_is_markdown = is_markdown,
                    cr_enable_heading_anchors =
                      (if content_format = ''markdown'' then enable_heading_anchors else False),
                    cr_content_representation = content_representation,
                    cr_emoji = emoji, cr_page_width = page_width\<rparr>
        in case invoke (CreatePage args) (fetcher_create_page f args) \<sigma> of
             (Inl e, \<sigma>1) \<Rightarrow> (Inl e, \<sigma>1)
           | (Inr page, \<sigma>1) \<Rightarrow>
               (Inr (json_dumps (JObj [(''message'', JStr ''Page created successfully''),
                                       (''page'', to_simplified_dict page)])),
                \<sigma>1))"

definition update_page ::
  "'s fetcher \<Rightarrow> string \<Rightarrow> string \<Rightarrow> string \<Rightarrow> bool \<Rightarrow> string option \<Rightarrow> string option
     \<Rightarrow> string \<Rightarrow> bool \<Rightarrow> string option \<Rightarrow> string option \<Rightarrow> 's env
     \<Rightarrow> (exn + string) \<times> 's env" where
  "update_page f page_id title content_arg is_minor_edit version_comment parent_id
       content_format enable_heading_anchors emoji page_width \<sigma> =
     (if content_format \<notin> set [''markdown'', ''wiki'', ''storage'']
      then (Inl (invalid_content_format content_format), \<sigma>)
      else
        let is_markdown = (content_format = ''markdown'');
            content_representation =
              (if content_format = ''markdown'' then None else Some content_format);
            args = \<lparr>up_page_id = page_id, up_title = title, up_body = content_arg,
                    up_is_minor_edit = is_minor_edit, up_version_comment = version_comment,
                    up_is_markdown = is_markdown, up_parent_id = parent_id,
                    up_enable_heading_anchors =
                      (if content_format = ''markdown'' then enable_heading_anchors else False),
                    up_content_representation = content_representation,
                    up_emoji = emoji, up_page_width = page_width\<rparr>
        in case invoke (UpdatePage args) (fetcher_update_page f args) \<sigma> of
             (Inl e, \<sigma>1) \<Rightarrow> (Inl e, \<sigma>1)
           | (Inr updated_page, \<sigma>1) \<Rightarrow>
               (Inr (json_dumps (JObj [(''message'', JStr ''Page updated successfully''),
                                       (''page'', to_simplified_dict updated_page)])),
                \<sigma>1))"

definition delete_page :: "'s fetcher \<Rightarrow> string \<Rightarrow> 's env \<Rightarrow> (exn + string) \<times> 's env" where
  "delete_page f page_id \<sigma> =
     (case invoke (DeletePage page_id) (fetcher_delete_page f page_id) \<sigma> of
        (Inr result, \<sigma>1) \<Rightarrow>
          (Inr (json_dumps
             (if result
              then JObj [(''success'', JBool True),
                         (''message'', JStr (''Page '' @ page_id @ '' deleted successfully''))]
              else JObj [(''success'', JBool False),
                         (''message'', JStr (''Unable to delete page '' @ page_id
                            @ ''. API request completed but deletion unsuccessful.''))])),
           \<sigma>1)
      | (Inl e, \<sigma>1) \<Rightarrow>
          (Inr (json_dumps
             (JObj [(''success'', JBool False),
                    (''message'', JStr (''Error deleting page '' @ page_id)),
                    (''error'', JStr (exn_str e))])),
           log_record ERROR
             (''Error deleting Confluence page '' @ page_id @ '': '' @ exn_str e) \<sigma>1))"

text \<open>
  Two steps run before the body of \<open>delete_page\<close> above. The decorator
  \<^verbatim>\<open>@check_write_access\<close> is applied to the handler, and the handler's first statement,
  \<^verbatim>\<open>confluence_fetcher = await get_confluence_fetcher(ctx)\<close>, stands before its
  \<^verbatim>\<open>try\<close>. Both belong to other modules; the handler's docstring says that a
  \<^verbatim>\<open>ValueError\<close> is raised when the client is not configured or available. The context
  of a call is therefore taken with the outcome of each step: the exception the
  write-access check raises, if any, and the fetcher the lookup returns or the exception
  it raises.
\<close>

record 's tool_context =
  write_access :: "exn option"
  confluence_fetcher :: "exn + 's fetcher"

text \<open>
  The tool as its caller sees it: the write-access check, the lookup of the fetcher, then
  the body. An exception of the first two steps is outside the body's \<^verbatim>\<open>try\<close> and
  reaches the caller.
\<close>

definition delete_page_tool :: "'s tool_context \<Rightarrow> string \<Rightarrow> 's env \<Rightarrow> (exn + string) \<times> 's env" where
  "delete_page_tool ctx page_id \<sigma> =
     (case write_access ctx of
        Some e \<Rightarrow> (Inl e, \<sigma>)
      | None \<Rightarrow>
          (case confluence_fetcher ctx of
             Inl e \<Rightarrow> (Inl e, \<sigma>)
           | Inr f \<Rightarrow> delete_page f page_id \<sigma>))"

section \<open>The helper \<^verbatim>\<open>parse_page_id_from_url\<close>\<close>

text \<open>
  The unit tests import \<^verbatim>\<open>parse_page_id_from_url\<close> from the server module, but the
  module at hand does not define it. Its model follows the specification's sentence on
  URL-to-identifier parsing and the test cases of \<^verbatim>\<open>test_confluence_helpers.py\<close>.
  The result is the parsed value together with the levels of the records logged.
\<close>

text \<open>
  Modelled from the spec: the decimal digits of which an identifier consists, for the
  missing \<^verbatim>\<open>parse_page_id_from_url\<close>.
\<close>

definition is_digit :: "char \<Rightarrow> bool" where
  "is_digit c = (c \<in> set ''0123456789'')"

text \<open>
  Modelled from the spec: what the missing \<^verbatim>\<open>parse_page_id_from_url\<close> takes for a URL, the prefix
  \<^verbatim>\<open>http://\<close> or \<^verbatim>\<open>https://\<close>.
\<close>

definition is_url :: "string \<Rightarrow> bool" where
  "is_url s = (prefix ''http://'' s \<or> prefix ''https://'' s)"

text \<open>
  Modelled from the spec: the path segments of a URL, cut at every slash, in which the
  missing \<^verbatim>\<open>parse_page_id_from_url\<close> looks for the modern form
  \<^verbatim>\<open>.../spaces/<KEY>/pages/<digits>/<slug>\<close>.
\<close>

fun split_on :: "char \<Rightarrow> string \<Rightarrow> string list" where
  "split_on c [] = [[]]"
| "split_on c (x # xs) =
     (if x = c then [] # split_on c xs
      else (case split_on c xs of
              [] \<Rightarrow> [[x]]
            | seg # segs \<Rightarrow> (x # seg) # segs))"

text \<open>
  Modelled from the spec: the segments that follow \<^verbatim>\<open>spaces\<close> in the modern form read by the missing
  \<^verbatim>\<open>parse_page_id_from_url\<close>: a key, \<^verbatim>\<open>pages\<close> and a non-empty run of digits.
\<close>

fun page_id_after_space :: "string list \<Rightarrow> string option" where
  "page_id_after_space (key # p # d # rest) =
     (if p = ''pages'' \<and> d \<noteq> [] \<and> list_all is_digit d then Some d else None)"
| "page_id_after_space _ = None"

text \<open>
  Modelled from the spec: the first place in the segments where the modern form occurs, for the
  missing \<^verbatim>\<open>parse_page_id_from_url\<close>.
\<close>

fun find_modern :: "string list \<Rightarrow> string option" where
  "find_modern [] = None"
| "find_modern (seg # rest) =
     (case (if seg = ''spaces'' then page_id_after_space rest else None) of
        Some d \<Rightarrow> Some d
      | None \<Rightarrow> find_modern rest)"

text \<open>
  Modelled from the spec: the identifier of a URL of the modern form, for the missing
  \<^verbatim>\<open>parse_page_id_from_url\<close>.
\<close>

definition modern_page_id :: "string \<Rightarrow> string option" where
  "modern_page_id url = find_modern (split_on CHR ''/'' url)"

text \<open>
  Modelled from the spec: the text that follows the first occurrence of a marker, used
  by the missing \<^verbatim>\<open>parse_page_id_from_url\<close> for the legacy form
  \<^verbatim>\<open>?pageId=<digits>\<close>.
\<close>

fun after_first :: "string \<Rightarrow> string \<Rightarrow> string option" where
  "after_first x [] = (if x = [] then Some [] else None)"
| "after_first x (c # cs) =
     (if prefix x (c # cs) then Some (drop (length x) (c # cs)) else after_first x cs)"

text \<open>
  Modelled from the spec: the identifier of a URL of the legacy form, for the missing
  \<^verbatim>\<open>parse_page_id_from_url\<close>: the digits after the first \<^verbatim>\<open>?pageId=\<close>.
\<close>

definition legacy_page_id :: "string \<Rightarrow> string option" where
  "legacy_page_id url =
     (case after_first ''?pageId='' url of
        None \<Rightarrow> None
      | Some rest \<Rightarrow>
          (let d = takeWhile is_digit rest in if d = [] then None else Some d))"

text \<open>
  Modelled from the spec: \<^verbatim>\<open>parse_page_id_from_url\<close>, whose body is missing from
  the source. \<^verbatim>\<open>None\<close> yields \<^verbatim>\<open>None\<close>; an integer yields its string form; a
  string that is not a URL is returned unchanged; a URL yields the identifier of its
  modern or legacy form, and is returned unchanged with a warning when it has neither.
\<close>

definition parse_page_id_from_url :: "page_id option \<Rightarrow> string option \<times> level list" where
  "parse_page_id_from_url v =
     (case v of
        None \<Rightarrow> (None, [])
      | Some (IdInt i) \<Rightarrow> (Some (str_int i), [])
      | Some (IdStr s) \<Rightarrow>
          (if is_url s then
             (case modern_page_id s of
                Some d \<Rightarrow> (Some d, [])
              | None \<Rightarrow>
                  (case legacy_page_id s of
                     Some d \<Rightarrow> (Some d, [])
                   | None \<Rightarrow> (Some s, [WARNING])))
           else (Some s, [])))"

section \<open>A concrete fetcher for evaluating the tools\<close>

text \<open>
  A fetcher for a server that lacks \<^verbatim>\<open>siteSearch\<close>, holds one page (id 42, titled
  Home, in space DEV) and refuses some requests. A child page it lists shows the
  \<^verbatim>\<open>expand\<close> value the fetcher received. Its state counts the operations served.
\<close>

definition sample_page :: page where
  "sample_page = \<lparr>to_simplified_dict = JObj [(''id'', JStr ''42''), (''title'', JStr ''Home'')],
                   content = ''Welcome''\<rparr>"

definition legacy_fetcher :: "nat fetcher" where
  "legacy_fetcher = \<lparr>
     fetcher_search = (\<lambda>q limit sf n.
        (if prefix ''siteSearch'' q then Inl (Exn ''HTTPError'' ''400 Bad Request'')
         else if py_in ''secret'' q then Inl (Exn ''HTTPError'' ''403 Forbidden'')
         else Inr [sample_page], Suc n)),
     fetcher_get_page_content = (\<lambda>pid c2m n.
        (if pid = ''42'' then Inr (Some sample_page)
         else Inl (Exn ''HTTPError'' ''404 Not Found''), Suc n)),
     fetcher_get_page_by_title = (\<lambda>space title c2m n.
        (if space = ''OPS'' then Inl (Exn ''HTTPError'' ''403 Forbidden'')
         else if space = ''DEV'' \<and> title = ''Home'' then Inr (Some sample_page)
         else Inr None, Suc n)),
     fetcher_get_page_children = (\<lambda>args n.
        (if ca_page_id args = ''404'' then Inl (Exn ''HTTPError'' ''404 Not Found'')
         else Inr [\<lparr>to_simplified_dict =
                      JObj [(''id'', JStr ''43''), (''expand'', JStr (ca_expand args))],
                    content = ''Child''\<rparr>], Suc n)),
     fetcher_create_page = (\<lambda>args n. (Inr sample_page, Suc n)),
     fetcher_update_page = (\<lambda>args n. (Inr sample_page, Suc n)),
     fetcher_delete_page = (\<lambda>pid n.
        (if pid = ''42'' then Inr True
         else if pid = ''7'' then Inr False
         else Inl (Exn ''HTTPError'' ''403 Forbidden''), Suc n))\<rparr>"

definition env0 :: "nat env" where
  "env0 = \<lparr>fetcher_state = 0, calls = [], logged = []\<rparr>"

text \<open>
  Three contexts: one in which the call goes through to the fetcher above, one of a
  server configured read-only, and one without a configured Confluence client.
\<close>

definition writable_context :: "nat tool_context" where
  "writable_context = \<lparr>write_access = None, confluence_fetcher = Inr legacy_fetcher\<rparr>"

definition read_only_context :: "nat tool_context" where
  "read_only_context =
     \<lparr>write_access = Some (ValueError ''Cannot delete page in read-only mode.''),
      confluence_fetcher = Inr legacy_fetcher\<rparr>"

definition unconfigured_context :: "nat tool_context" where
  "unconfigured_context =
     \<lparr>write_access = None,
      confluence_fetcher = Inl (ValueError ''Confluence client is not configured or available.'')\<rparr>"

section \<open>Properties\<close>

subsection \<open>Substring test\<close>

lemma py_in_iff_sublist: "py_in x s \<longleftrightarrow> sublist x s"
  by (induction s) (simp_all add: sublist_Cons_right)

subsection \<open>Search: free text and CQL\<close>

text \<open>
  C1. For a non-empty query in which none of the operator tokens occurs, \<open>search\<close>
  first calls the fetcher's search with \<^verbatim>\<open>siteSearch ~ "<query>"\<close>. If that call
  returns, its pages are the result and no other call is made. If it raises, the
  exception is caught (and logged as a warning) and the fetcher's search is called
  exactly once more, with \<^verbatim>\<open>text ~ "<query>"\<close>; the outcome of this second call is the
  outcome of the tool, so an exception raised by it propagates to the caller.
\<close>

theorem search_free_text_fallback:
  assumes "query \<noteq> []" and "\<forall>x\<in>set operator_tokens. \<not> sublist x query"
  shows \<open>search f query limit sf \<sigma> =
    (case fetcher_search f (''siteSearch ~ "'' @ query @ dq) limit sf (fetcher_state \<sigma>) of
       (Inr pages, s1) \<Rightarrow>
         (Inr (json_dumps (JList (map to_simplified_dict pages))),
          \<sigma>\<lparr>fetcher_state := s1,
            calls := calls \<sigma> @ [Search (''siteSearch ~ "'' @ query @ dq) limit sf],
            logged := logged \<sigma> @
              [(INFO, ''Converting simple search term to CQL using siteSearch: siteSearch ~ "''
                        @ query @ dq)]\<rparr>)
     | (Inl e, s1) \<Rightarrow>
         (case fetcher_search f (''text ~ "'' @ query @ dq) limit sf s1 of
            (r2, s2) \<Rightarrow>
              ((case r2 of
                  Inr pages \<Rightarrow> Inr (json_dumps (JList (map to_simplified_dict pages)))
                | Inl e2 \<Rightarrow> Inl e2),
               \<sigma>\<lparr>fetcher_state := s2,
                 calls := calls \<sigma> @ [Search (''siteSearch ~ "'' @ query @ dq) limit sf,
                                       Search (''text ~ "'' @ query @ dq) limit sf],
                 logged := logged \<sigma> @
                   [(INFO, ''Converting simple search term to CQL using siteSearch: siteSearch ~ "''
                             @ query @ dq),
                    (WARNING, ''siteSearch failed ('' @ sq @ exn_str e @ sq
                                @ ''), falling back to text search.''),
                    (INFO, ''Falling back to text search with CQL: text ~ "'' @ query @ dq)]\<rparr>)))\<close>
  using assms
  by (auto simp: search_def invoke_def log_record_def Let_def list_ex_iff py_in_iff_sublist
           split: prod.splits sum.splits)

text \<open>
  On the concrete fetcher \<^verbatim>\<open>siteSearch\<close> is refused: the query "project docs" is
  answered by the fallback, and "secret plan" fails in both calls and raises.
\<close>

theorem search_free_text_fallback_witness:
  \<open>search legacy_fetcher ''project docs'' 10 None env0 =
     (Inr (json_dumps (JList [to_simplified_dict sample_page])),
      \<lparr>fetcher_state = 2,
       calls = [Search ''siteSearch ~ "project docs"'' 10 None,
                Search ''text ~ "project docs"'' 10 None],
       logged = [(INFO, ''Converting simple search term to CQL using siteSearch: siteSearch ~ "project docs"''),
                 (WARNING, ''siteSearch failed ('400 Bad Request'), falling back to text search.''),
                 (INFO, ''Falling back to text search with CQL: text ~ "project docs"'')]\<rparr>)
   \<and> search legacy_fetcher ''secret plan'' 10 None env0 =
     (Inl (Exn ''HTTPError'' ''403 Forbidden''),
      \<lparr>fetcher_state = 2,
       calls = [Search ''siteSearch ~ "secret plan"'' 10 None,
                Search ''text ~ "secret plan"'' 10 None],
       logged = [(INFO, ''Converting simple search term to CQL using siteSearch: siteSearch ~ "secret plan"''),
                 (WARNING, ''siteSearch failed ('400 Bad Request'), falling back to text search.''),
                 (INFO, ''Falling back to text search with CQL: text ~ "secret plan"'')]\<rparr>)\<close>
proof -
  have h1: "\<forall>x\<in>set operator_tokens. \<not> sublist x ''project docs''"
    by (simp add: operator_tokens_def py_in_iff_sublist [symmetric])
  have h2: "\<forall>x\<in>set operator_tokens. \<not> sublist x ''secret plan''"
    by (simp add: operator_tokens_def py_in_iff_sublist [symmetric])
  show ?thesis
    using search_free_text_fallback [OF _ h1, of legacy_fetcher 10 None env0]
          search_free_text_fallback [OF _ h2, of legacy_fetcher 10 None env0]
    by (simp add: legacy_fetcher_def env0_def)
qed

text \<open>
  C2. For a query in which at least one operator token occurs, \<open>search\<close> passes the
  query to the fetcher's search unmodified and makes exactly that one call: whatever
  the call does, returning or raising, is the outcome of the tool, and nothing is
  logged or retried.
\<close>

theorem search_cql_passthrough:
  assumes "\<exists>x\<in>set operator_tokens. sublist x query"
  shows "search f query limit sf \<sigma> =
    (case fetcher_search f query limit sf (fetcher_state \<sigma>) of
       (r, s1) \<Rightarrow>
         ((case r of
             Inr pages \<Rightarrow> Inr (json_dumps (JList (map to_simplified_dict pages)))
           | Inl e \<Rightarrow> Inl e),
          \<sigma>\<lparr>fetcher_state := s1, calls := calls \<sigma> @ [Search query limit sf]\<rparr>))"
  using assms
  by (auto simp: search_def invoke_def list_ex_iff py_in_iff_sublist
           split: prod.splits sum.splits)

theorem search_cql_passthrough_witness:
  \<open>search legacy_fetcher ''type=page AND space=DEV'' 10 (Some ''DEV'') env0 =
       (Inr (json_dumps (JList [to_simplified_dict sample_page])),
        \<lparr>fetcher_state = 1, calls = [Search ''type=page AND space=DEV'' 10 (Some ''DEV'')],
         logged = []\<rparr>)
   \<and> search legacy_fetcher ''siteSearch ~ "docs"'' 10 None env0 =
       (Inl (Exn ''HTTPError'' ''400 Bad Request''),
        \<lparr>fetcher_state = 1, calls = [Search ''siteSearch ~ "docs"'' 10 None], logged = []\<rparr>)\<close>
proof -
  have h1: "\<exists>x\<in>set operator_tokens. sublist x ''type=page AND space=DEV''"
    by (simp add: operator_tokens_def py_in_iff_sublist [symmetric])
  have h2: \<open>\<exists>x\<in>set operator_tokens. sublist x ''siteSearch ~ "docs"''\<close>
    by (simp add: operator_tokens_def py_in_iff_sublist [symmetric])
  show ?thesis
    using search_cql_passthrough [OF h1, of legacy_fetcher 10 "Some ''DEV''" env0]
          search_cql_passthrough [OF h2, of legacy_fetcher 10 None env0]
    by (simp add: legacy_fetcher_def env0_def)
qed

subsection \<open>Page identifier resolution in \<^verbatim>\<open>get_page\<close>\<close>

text \<open>
  C3. When \<open>page_id\<close> is truthy, \<open>get_page\<close> resolves the page by ID: its only
  fetcher operation is \<^verbatim>\<open>get_page_content\<close> on \<^verbatim>\<open>str(page_id)\<close>. The payload is the one
  the call without \<open>title\<close> and \<open>space_key\<close> gives, it is returned rather than raised,
  and a truthy \<open>title\<close> or \<open>space_key\<close> only adds a warning to the log.
\<close>

theorem get_page_by_id_ignores_title_and_space:
  assumes "id_truthy page_id"
  shows "fst (get_page f page_id title space_key im c2m \<sigma>)
           = fst (get_page f page_id None None im c2m \<sigma>)
       \<and> (\<exists>payload. fst (get_page f page_id title space_key im c2m \<sigma>) = Inr payload)
       \<and> calls (snd (get_page f page_id title space_key im c2m \<sigma>))
           = calls \<sigma> @ [GetPageContent (id_str page_id) c2m]
       \<and> fetcher_state (snd (get_page f page_id title space_key im c2m \<sigma>))
           = snd (fetcher_get_page_content f (id_str page_id) c2m (fetcher_state \<sigma>))
       \<and> (str_truthy title \<or> str_truthy space_key \<longrightarrow>
            (WARNING, ''page_id was provided; title and space_key parameters will be ignored.'')
              \<in> set (logged (snd (get_page f page_id title space_key im c2m \<sigma>))))"
  using assms
  by (auto simp: get_page_def invoke_def log_record_def Let_def
           split: prod.splits sum.splits option.splits)

theorem get_page_by_id_ignores_title_and_space_witness:
  \<open>get_page legacy_fetcher (Some (IdStr ''42'')) (Some ''Other'') (Some ''OPS'') False True env0 =
     (Inr ''{\<newline>  "content": {\<newline>    "value": "Welcome"\<newline>  }\<newline>}'',
      \<lparr>fetcher_state = 1, calls = [GetPageContent ''42'' True],
       logged = [(WARNING, ''page_id was provided; title and space_key parameters will be ignored.'')]\<rparr>)
   \<and> fst (get_page legacy_fetcher (Some (IdStr ''42'')) None None False True env0) =
      Inr ''{\<newline>  "content": {\<newline>    "value": "Welcome"\<newline>  }\<newline>}''\<close>
  using get_page_by_id_ignores_title_and_space
          [of "Some (IdStr ''42'')" legacy_fetcher "Some ''Other''" "Some ''OPS''" False True env0]
  by (simp add: get_page_def invoke_def log_record_def legacy_fetcher_def env0_def
        sample_page_def json_dumps_def json_string_def json_escape_char_def newline_indent_def
        Let_def eval_nat_numeral)

text \<open>
  C4. When \<open>page_id\<close> is absent, \<open>title\<close> and \<open>space_key\<close> are non-empty and the
  fetcher's \<^verbatim>\<open>get_page_by_title\<close> returns no page, \<open>get_page\<close> returns (does not raise)
  the JSON text of the object whose \<^verbatim>\<open>error\<close> is
  \<^verbatim>\<open>Page with title '<title>' not found in space '<space_key>'.\<close>
\<close>

theorem get_page_title_not_found:
  assumes "\<not> id_truthy page_id" and "title \<noteq> []" and "space_key \<noteq> []"
    and "fetcher_get_page_by_title f space_key title c2m (fetcher_state \<sigma>) = (Inr None, s1)"
  shows "get_page f page_id (Some title) (Some space_key) im c2m \<sigma> =
     (Inr (json_dumps (JObj [(''error'',
        JStr (''Page with title '' @ sq @ title @ sq @ '' not found in space '' @ sq @ space_key
              @ sq @ ''.''))])),
      \<sigma>\<lparr>fetcher_state := s1, calls := calls \<sigma> @ [GetPageByTitle space_key title c2m]\<rparr>)"
  using assms
  by (simp add: get_page_def invoke_def)

theorem get_page_title_not_found_witness:
  \<open>get_page legacy_fetcher None (Some ''X'') (Some ''DEV'') True True env0 =
     (Inr ''{\<newline>  "error": "Page with title 'X' not found in space 'DEV'."\<newline>}'',
      \<lparr>fetcher_state = 1, calls = [GetPageByTitle ''DEV'' ''X'' True], logged = []\<rparr>)\<close>
  using get_page_title_not_found [of None "''X''" "''DEV''" legacy_fetcher True env0 1 True]
  by (simp add: legacy_fetcher_def env0_def
        json_dumps_def json_string_def json_escape_char_def newline_indent_def eval_nat_numeral)

text \<open>
  C5. When \<open>page_id\<close> is absent and \<open>title\<close> or \<open>space_key\<close> is absent, \<open>get_page\<close>
  raises a \<^verbatim>\<open>ValueError\<close> and leaves the environment as it was: no fetcher operation
  has been invoked.
\<close>

theorem get_page_missing_identifier:
  assumes "\<not> id_truthy page_id" and "\<not> str_truthy title \<or> \<not> str_truthy space_key"
  shows \<open>get_page f page_id title space_key im c2m \<sigma> =
     (Inl (ValueError ''Either 'page_id' OR both 'title' and 'space_key' must be provided.''),
      \<sigma>)\<close>
  using assms
  by (auto simp: get_page_def)

theorem get_page_missing_identifier_witness:
  \<open>get_page legacy_fetcher None (Some ''Home'') None True True env0 =
     (Inl (Exn ''ValueError'' ''Either 'page_id' OR both 'title' and 'space_key' must be provided.''),
      env0)
   \<and> get_page legacy_fetcher (Some (IdInt 0)) None (Some ''DEV'') True True env0 =
     (Inl (Exn ''ValueError'' ''Either 'page_id' OR both 'title' and 'space_key' must be provided.''),
      env0)
   \<and> calls env0 = [] \<and> fetcher_state env0 = 0\<close>
  using get_page_missing_identifier [of None "Some ''Home''" None legacy_fetcher True True env0]
        get_page_missing_identifier [of "Some (IdInt 0)" None "Some ''DEV''" legacy_fetcher True True env0]
  by (simp add: env0_def)

text \<open>
  C10. With a truthy \<open>page_id\<close>, \<open>get_page\<close> never raises: an exception of the
  fetcher's \<^verbatim>\<open>get_page_content\<close> is turned into the JSON text of the object whose
  \<^verbatim>\<open>error\<close> is \<^verbatim>\<open>Failed to retrieve page by ID '<page_id>': <exception text>\<close>. In
  the branch of \<open>title\<close> and \<open>space_key\<close>, an exception of \<^verbatim>\<open>get_page_by_title\<close>
  is raised to the caller.
\<close>

theorem get_page_fetch_errors:
  "(id_truthy page_id \<longrightarrow>
      (\<exists>payload. fst (get_page f page_id title space_key im c2m \<sigma>) = Inr payload)
      \<and> (\<forall>e s1. fetcher_get_page_content f (id_str page_id) c2m (fetcher_state \<sigma>) = (Inl e, s1) \<longrightarrow>
            fst (get_page f page_id title space_key im c2m \<sigma>) =
              Inr (json_dumps (JObj [(''error'',
                 JStr (''Failed to retrieve page by ID '' @ sq @ id_str page_id @ sq @ '': ''
                       @ exn_str e))]))))
   \<and> (\<not> id_truthy page_id \<and> str_truthy title \<and> str_truthy space_key \<longrightarrow>
      (\<forall>e s1. fetcher_get_page_by_title f (the space_key) (the title) c2m (fetcher_state \<sigma>) = (Inl e, s1) \<longrightarrow>
            get_page f page_id title space_key im c2m \<sigma> =
              (Inl e, \<sigma>\<lparr>fetcher_state := s1,
                        calls := calls \<sigma> @ [GetPageByTitle (the space_key) (the title) c2m]\<rparr>)))"
  by (auto simp: get_page_def invoke_def log_record_def Let_def
           split: prod.splits sum.splits option.splits)

theorem get_page_fetch_errors_witness:
  \<open>get_page legacy_fetcher (Some (IdInt 99)) None None True True env0 =
     (Inr ''{\<newline>  "error": "Failed to retrieve page by ID '99': 404 Not Found"\<newline>}'',
      \<lparr>fetcher_state = 1, calls = [GetPageContent ''99'' True],
       logged = [(ERROR, ''Error fetching page by ID '99': 404 Not Found'')]\<rparr>)
   \<and> get_page legacy_fetcher None (Some ''Runbook'') (Some ''OPS'') True True env0 =
     (Inl (Exn ''HTTPError'' ''403 Forbidden''),
      \<lparr>fetcher_state = 1, calls = [GetPageByTitle ''OPS'' ''Runbook'' True], logged = []\<rparr>)\<close>
proof -
  have s99: "str_int 99 = ''99''"
    by (simp add: str_int_def str_nat.simps digit_char_def)
  show ?thesis
  using get_page_fetch_errors [of "Some (IdInt 99)" legacy_fetcher None None True True env0]
        get_page_fetch_errors [of None legacy_fetcher "Some ''Runbook''" "Some ''OPS''" True True env0]
    by (simp add: s99 get_page_def invoke_def log_record_def legacy_fetcher_def env0_def
        json_dumps_def json_string_def json_escape_char_def newline_indent_def Let_def
        eval_nat_numeral)
qed

subsection \<open>Child listing\<close>

text \<open>
  C8. \<open>get_page_children\<close> applies the fetcher's \<^verbatim>\<open>get_page_children\<close> exactly once,
  and the \<^verbatim>\<open>expand\<close> argument of that application is: when \<open>include_content\<close> is
  true and \<^verbatim>\<open>body\<close> does not occur in \<open>expand\<close>, \<open>expand\<close> followed by
  \<^verbatim>\<open>,body.storage\<close> for a non-empty \<open>expand\<close> and \<^verbatim>\<open>body.storage\<close> for the empty
  one; otherwise \<open>expand\<close> itself. What the fetcher answers to these arguments, pages
  or an exception, determines the payload, the new fetcher state and the log.
\<close>

theorem get_page_children_expand:
  "get_page_children f parent_id expand limit include_content c2m start folders \<sigma> =
     (let args =
            \<lparr>ca_page_id = parent_id, ca_start = start, ca_limit = limit,
             ca_expand =
               (if include_content \<and> \<not> sublist ''body'' expand
                then (if expand \<noteq> [] then expand @ '',body.storage'' else ''body.storage'')
                else expand),
             ca_convert_to_markdown = c2m, ca_include_folders = folders\<rparr>
      in case fetcher_get_page_children f args (fetcher_state \<sigma>) of
           (Inr pages, s1) \<Rightarrow>
             (Inr (json_dumps
                (JObj [(''parent_id'', JStr parent_id),
                       (''count'', JInt (int (length pages))),
                       (''limit_requested'', JInt limit),
                       (''start_requested'', JInt start),
                       (''results'', JList (map to_simplified_dict pages))])),
              \<sigma>\<lparr>fetcher_state := s1, calls := calls \<sigma> @ [GetPageChildren args]\<rparr>)
         | (Inl e, s1) \<Rightarrow>
             (Inr (json_dumps
                (JObj [(''error'', JStr (''Failed to get child pages: '' @ exn_str e))])),
              \<sigma>\<lparr>fetcher_state := s1, calls := calls \<sigma> @ [GetPageChildren args],
                logged := logged \<sigma> @
                  [(ERROR, ''Error getting/processing children for page ID '' @ parent_id
                           @ '': '' @ exn_str e)]\<rparr>))"
  by (auto simp: get_page_children_def invoke_def log_record_def Let_def py_in_iff_sublist
           split: prod.splits sum.splits)

text \<open>
  The concrete fetcher lists a child that shows the \<^verbatim>\<open>expand\<close> it received:
  \<^verbatim>\<open>version\<close> arrives as \<^verbatim>\<open>version,body.storage\<close>, the empty string as
  \<^verbatim>\<open>body.storage\<close>, and \<^verbatim>\<open>body.view\<close> or a call without content arrive unchanged.
\<close>

theorem get_page_children_expand_witness:
  "get_page_children legacy_fetcher ''1'' ''version'' 25 True True 0 True env0 =
     (Inr (json_dumps
        (JObj [(''parent_id'', JStr ''1''), (''count'', JInt 1), (''limit_requested'', JInt 25),
               (''start_requested'', JInt 0),
               (''results'', JList [JObj [(''id'', JStr ''43''),
                                          (''expand'', JStr ''version,body.storage'')]])])),
      \<lparr>fetcher_state = 1,
       calls = [GetPageChildren
                  \<lparr>ca_page_id = ''1'', ca_start = 0, ca_limit = 25,
                   ca_expand = ''version,body.storage'',
                   ca_convert_to_markdown = True, ca_include_folders = True\<rparr>],
       logged = []\<rparr>)
   \<and> fst (get_page_children legacy_fetcher ''1'' '''' 25 True True 0 True env0) =
     Inr (json_dumps
        (JObj [(''parent_id'', JStr ''1''), (''count'', JInt 1), (''limit_requested'', JInt 25),
               (''start_requested'', JInt 0),
               (''results'', JList [JObj [(''id'', JStr ''43''),
                                          (''expand'', JStr ''body.storage'')]])]))
   \<and> fst (get_page_children legacy_fetcher ''1'' ''body.view'' 25 True True 0 True env0) =
     Inr (json_dumps
        (JObj [(''parent_id'', JStr ''1''), (''count'', JInt 1), (''limit_requested'', JInt 25),
               (''start_requested'', JInt 0),
               (''results'', JList [JObj [(''id'', JStr ''43''),
                                          (''expand'', JStr ''body.view'')]])]))
   \<and> fst (get_page_children legacy_fetcher ''1'' ''version'' 25 False True 0 True env0) =
     Inr (json_dumps
        (JObj [(''parent_id'', JStr ''1''), (''count'', JInt 1), (''limit_requested'', JInt 25),
               (''start_requested'', JInt 0),
               (''results'', JList [JObj [(''id'', JStr ''43''),
                                          (''expand'', JStr ''version'')]])]))"
  using get_page_children_expand [of legacy_fetcher "''1''" "''version''" 25 True True 0 True env0]
        get_page_children_expand [of legacy_fetcher "''1''" "''''" 25 True True 0 True env0]
        get_page_children_expand [of legacy_fetcher "''1''" "''body.view''" 25 True True 0 True env0]
        get_page_children_expand [of legacy_fetcher "''1''" "''version''" 25 False True 0 True env0]
  by (simp add: env0_def legacy_fetcher_def Let_def py_in_iff_sublist [symmetric])

subsection \<open>Write tools\<close>

text \<open>
  C6. For a \<open>content_format\<close> other than \<^verbatim>\<open>markdown\<close>, \<^verbatim>\<open>wiki\<close> and \<^verbatim>\<open>storage\<close>,
  both \<open>create_page\<close> and \<open>update_page\<close> raise a \<^verbatim>\<open>ValueError\<close> that names the
  rejected value, and leave the environment as it was: no fetcher operation has been
  invoked, so no page is created or updated.
\<close>

theorem invalid_content_format_rejected:
  assumes "content_format \<notin> {''markdown'', ''wiki'', ''storage''}"
  shows \<open>create_page f space_key title body parent_id content_format anchors emoji page_width \<sigma> =
           (Inl (ValueError (''Invalid content_format: '' @ content_format
                   @ ''. Must be 'markdown', 'wiki', or 'storage'' @ sq)), \<sigma>)
       \<and> update_page f page_id title body minor version_comment parent_id content_format anchors
            emoji page_width \<sigma> =
           (Inl (ValueError (''Invalid content_format: '' @ content_format
                   @ ''. Must be 'markdown', 'wiki', or 'storage'' @ sq)), \<sigma>)\<close>
  using assms
  by (simp add: create_page_def update_page_def invalid_content_format_def)

theorem invalid_content_format_rejected_witness:
  \<open>create_page legacy_fetcher ''DEV'' ''Notes'' ''h1. Notes'' None ''bogus'' False None None env0 =
     (Inl (Exn ''ValueError''
        (''Invalid content_format: bogus. Must be 'markdown', 'wiki', or 'storage'' @ sq)), env0)
   \<and> update_page legacy_fetcher ''42'' ''Notes'' ''h1. Notes'' False None None ''Markdown'' False
        None None env0 =
     (Inl (Exn ''ValueError''
        (''Invalid content_format: Markdown. Must be 'markdown', 'wiki', or 'storage'' @ sq)), env0)
   \<and> calls env0 = []\<close>
  using invalid_content_format_rejected
          [of "''bogus''" legacy_fetcher "''DEV''" "''Notes''" "''h1. Notes''" None False None None
              env0]
        invalid_content_format_rejected
          [of "''Markdown''" legacy_fetcher _ "''Notes''" "''h1. Notes''" None False None None
              env0 "''42''" False None]
  by (simp add: env0_def)

text \<open>
  The tool \<open>delete_page\<close> as a whole does raise: without a configured client the
  lookup of the fetcher raises before the \<^verbatim>\<open>try\<close>, and in read-only mode the
  write-access check raises before the handler runs. In both cases the exception reaches
  the caller and the environment is untouched.
\<close>

theorem delete_page_raises_without_fetcher:
  "delete_page_tool unconfigured_context ''42'' env0 =
     (Inl (Exn ''ValueError'' ''Confluence client is not configured or available.''), env0)
   \<and> delete_page_tool read_only_context ''42'' env0 =
     (Inl (Exn ''ValueError'' ''Cannot delete page in read-only mode.''), env0)"
  by (simp add: delete_page_tool_def unconfigured_context_def read_only_context_def)

text \<open>
  C7, amended. Once the write-access check has let the call through and the lookup has
  returned a fetcher, \<open>delete_page\<close> never raises. When the fetcher's
  \<^verbatim>\<open>delete_page\<close> returns \<^verbatim>\<open>True\<close> the payload is a success object; when it returns
  \<^verbatim>\<open>False\<close> the payload has \<^verbatim>\<open>success\<close> false and the message
  \<^verbatim>\<open>Unable to delete page <page_id>. API request completed but deletion unsuccessful.\<close>;
  when it raises, the payload has \<^verbatim>\<open>success\<close> false, a message and the exception's
  text under \<^verbatim>\<open>error\<close>, and the exception is logged instead of propagated.
\<close>

theorem delete_page_outcomes:
  assumes "write_access ctx = None" and "confluence_fetcher ctx = Inr f"
  shows "delete_page_tool ctx page_id \<sigma> =
     (case fetcher_delete_page f page_id (fetcher_state \<sigma>) of
        (Inr True, s1) \<Rightarrow>
          (Inr (json_dumps (JObj [(''success'', JBool True),
                  (''message'', JStr (''Page '' @ page_id @ '' deleted successfully''))])),
           \<sigma>\<lparr>fetcher_state := s1, calls := calls \<sigma> @ [DeletePage page_id]\<rparr>)
      | (Inr False, s1) \<Rightarrow>
          (Inr (json_dumps (JObj [(''success'', JBool False),
                  (''message'', JStr (''Unable to delete page '' @ page_id
                     @ ''. API request completed but deletion unsuccessful.''))])),
           \<sigma>\<lparr>fetcher_state := s1, calls := calls \<sigma> @ [DeletePage page_id]\<rparr>)
      | (Inl e, s1) \<Rightarrow>
          (Inr (json_dumps (JObj [(''success'', JBool False),
                  (''message'', JStr (''Error deleting page '' @ page_id)),
                  (''error'', JStr (exn_str e))])),
           \<sigma>\<lparr>fetcher_state := s1, calls := calls \<sigma> @ [DeletePage page_id],
             logged := logged \<sigma> @ [(ERROR, ''Error deleting Confluence page '' @ page_id @ '': ''
                                            @ exn_str e)]\<rparr>))
   \<and> (\<exists>payload. fst (delete_page_tool ctx page_id \<sigma>) = Inr payload)"
  using assms
  by (auto simp: delete_page_tool_def delete_page_def invoke_def log_record_def
           split: prod.splits sum.splits)

theorem delete_page_outcomes_witness:
  \<open>fst (delete_page_tool writable_context ''7'' env0) =
     Inr ''{\<newline>  "success": false,\<newline>  "message": "Unable to delete page 7. API request completed but deletion unsuccessful."\<newline>}''
   \<and> fst (delete_page_tool writable_context ''42'' env0) =
     Inr ''{\<newline>  "success": true,\<newline>  "message": "Page 42 deleted successfully"\<newline>}''
   \<and> fst (delete_page_tool writable_context ''13'' env0) =
     Inr ''{\<newline>  "success": false,\<newline>  "message": "Error deleting page 13",\<newline>  "error": "403 Forbidden"\<newline>}''\<close>
proof -
  have g: "write_access writable_context = None"
    and l: "confluence_fetcher writable_context = Inr legacy_fetcher"
    by (simp_all add: writable_context_def)
  show ?thesis
    using delete_page_outcomes [OF g l, of "''7''" env0]
          delete_page_outcomes [OF g l, of "''42''" env0]
          delete_page_outcomes [OF g l, of "''13''" env0]
    by (simp add: legacy_fetcher_def env0_def
          json_dumps_def json_string_def json_escape_char_def newline_indent_def eval_nat_numeral)
qed

subsection \<open>URL-to-identifier parsing\<close>

lemma split_on_nonempty: "split_on c xs \<noteq> []"
  by (induction xs) (auto split: list.splits)

lemma split_on_append: "split_on c (xs @ c # ys) = split_on c xs @ split_on c ys"
proof (induction xs)
  case Nil
  show ?case by simp
next
  case (Cons x xs)
  obtain seg segs where "split_on c xs = seg # segs"
    using split_on_nonempty [of c xs] by (cases "split_on c xs") auto
  with Cons show ?case by simp
qed

lemma split_on_absent: "c \<notin> set xs \<Longrightarrow> split_on c xs = [xs]"
  by (induction xs) auto

lemma find_modern_first:
  "''spaces'' \<notin> set pre \<Longrightarrow> d \<noteq> [] \<Longrightarrow> list_all is_digit d \<Longrightarrow>
   find_modern (pre @ ''spaces'' # key # ''pages'' # d # post) = Some d"
  by (induction pre) auto

lemma digits_no_slash: "list_all is_digit d \<Longrightarrow> CHR ''/'' \<notin> set d"
  by (auto simp: list_all_iff is_digit_def)

lemma modern_page_id_form:
  assumes "''spaces'' \<notin> set (split_on CHR ''/'' base)" and "CHR ''/'' \<notin> set key"
    and "d \<noteq> []" and "list_all is_digit d"
  shows "modern_page_id (base @ ''/spaces/'' @ key @ ''/pages/'' @ d @ ''/'' @ slug) = Some d"
proof -
  have "split_on CHR ''/'' (base @ ''/spaces/'' @ key @ ''/pages/'' @ d @ ''/'' @ slug)
        = split_on CHR ''/'' base @ ''spaces'' # key # ''pages'' # d # split_on CHR ''/'' slug"
  proof -
    have 1: "split_on CHR ''/'' (d @ CHR ''/'' # slug) = d # split_on CHR ''/'' slug"
      using split_on_append [of "CHR ''/''" d slug] split_on_absent [OF digits_no_slash [OF assms(4)]]
      by simp
    have 2: "split_on CHR ''/'' (''pages'' @ CHR ''/'' # d @ CHR ''/'' # slug)
             = ''pages'' # d # split_on CHR ''/'' slug"
      using split_on_append [of "CHR ''/''" "''pages''" "d @ CHR ''/'' # slug"] 1
      by (simp add: split_on_absent)
    have 3: "split_on CHR ''/'' (key @ CHR ''/'' # ''pages'' @ CHR ''/'' # d @ CHR ''/'' # slug)
             = key # ''pages'' # d # split_on CHR ''/'' slug"
      using split_on_append [of "CHR ''/''" key "''pages'' @ CHR ''/'' # d @ CHR ''/'' # slug"] 2
        split_on_absent [OF assms(2)]
      by simp
    have 4: "split_on CHR ''/'' (''spaces'' @ CHR ''/'' # key @ CHR ''/'' # ''pages'' @ CHR ''/'' # d @ CHR ''/'' # slug)
             = ''spaces'' # key # ''pages'' # d # split_on CHR ''/'' slug"
      using split_on_append [of "CHR ''/''" "''spaces''"
               "key @ CHR ''/'' # ''pages'' @ CHR ''/'' # d @ CHR ''/'' # slug"] 3
      by (simp add: split_on_absent)
    show ?thesis
      using split_on_append [of "CHR ''/''" base
               "''spaces'' @ CHR ''/'' # key @ CHR ''/'' # ''pages'' @ CHR ''/'' # d @ CHR ''/'' # slug"] 4
      by simp
  qed
  then show ?thesis
    using find_modern_first [OF assms(1) assms(3) assms(4)]
    by (simp add: modern_page_id_def)
qed

lemma after_first_query:
  "CHR ''?'' \<notin> set base \<Longrightarrow> after_first ''?pageId='' (base @ ''?pageId='' @ t) = Some t"
  by (induction base) auto

lemma legacy_page_id_form:
  assumes "CHR ''?'' \<notin> set base" and "d \<noteq> []" and "list_all is_digit d"
    and "takeWhile is_digit rest = []"
  shows "legacy_page_id (base @ ''?pageId='' @ d @ rest) = Some d"
proof -
  have "takeWhile is_digit (d @ rest) = d"
    using assms(3,4) by (simp add: takeWhile_append2 list_all_iff)
  then show ?thesis
    using after_first_query [OF assms(1), of "d @ rest"] assms(2)
    by (simp add: legacy_page_id_def)
qed

lemma digits_not_url: "s \<noteq> [] \<Longrightarrow> list_all is_digit s \<Longrightarrow> \<not> is_url s"
  by (cases s) (auto simp: is_url_def is_digit_def)

lemma is_url_append: "is_url base \<Longrightarrow> is_url (base @ t)"
  by (auto simp: is_url_def)

lemma join_Cons: "join sep (x # xs) = (if xs = [] then x else x @ sep @ join sep xs)"
  by (cases xs) simp_all

lemma join_append:
  "xs \<noteq> [] \<Longrightarrow> ys \<noteq> [] \<Longrightarrow> join sep (xs @ ys) = join sep xs @ sep @ join sep ys"
  by (induction xs) (auto simp: join_Cons)

lemma join_split_on: "join [c] (split_on c u) = u"
proof (induction u)
  case Nil
  show ?case by simp
next
  case (Cons x xs)
  obtain seg segs where s: "split_on c xs = seg # segs"
    using split_on_nonempty [of c xs] by (cases "split_on c xs") auto
  with Cons show ?case by (auto simp: join_Cons)
qed

lemma segment_between_slashes:
  assumes "split_on c u = pre @ s # post" and "pre \<noteq> []"
  shows "sublist (c # s @ [c]) (u @ [c])"
proof -
  have "u = join [c] (pre @ s # post)"
    using join_split_on [of c u] assms(1) by simp
  then have "u = join [c] pre @ [c] @ join [c] (s # post)"
    using assms(2) by (simp add: join_append)
  then have "u @ [c] = join [c] pre @ (c # s @ [c])
               @ (if post = [] then [] else join [c] post @ [c])"
    by (simp add: join_Cons)
  then show ?thesis
    unfolding sublist_def by blast
qed

lemma inner_segment_between_slashes:
  assumes "split_on c u = pre @ s # post" and "pre \<noteq> []" and "post \<noteq> []"
  shows "sublist (c # s @ [c]) u"
proof -
  have "u = join [c] (pre @ s # post)"
    using join_split_on [of c u] assms(1) by simp
  then have "u = join [c] pre @ (c # s @ [c]) @ join [c] post"
    using assms(2,3) by (simp add: join_append join_Cons)
  then show ?thesis
    unfolding sublist_def by blast
qed

lemma first_segment_prefix:
  assumes "split_on c u = s # post"
  shows "prefix s u"
proof -
  have "u = join [c] (s # post)"
    using join_split_on [of c u] assms by simp
  then show ?thesis
    by (auto simp: join_Cons prefix_def)
qed

lemma find_modern_Some:
  "find_modern segs = Some d \<Longrightarrow>
   \<exists>pre key post. segs = pre @ ''spaces'' # key # ''pages'' # d # post"
proof (induction segs)
  case Nil
  then show ?case by simp
next
  case (Cons seg rest)
  show ?case
  proof (cases "seg = ''spaces'' \<and> page_id_after_space rest = Some d")
    case True
    then obtain key post where "rest = key # ''pages'' # d # post"
      by (cases rest rule: page_id_after_space.cases) (auto split: if_splits)
    with True have "seg # rest = [] @ ''spaces'' # key # ''pages'' # d # post"
      by simp
    then show ?thesis by blast
  next
    case False
    with Cons.prems have "find_modern rest = Some d"
      by (auto split: if_splits option.splits)
    then obtain pre key post where "rest = pre @ ''spaces'' # key # ''pages'' # d # post"
      using Cons.IH by blast
    then have "seg # rest = (seg # pre) @ ''spaces'' # key # ''pages'' # d # post"
      by simp
    then show ?thesis by blast
  qed
qed

lemma url_first_segment: "is_url u \<Longrightarrow> split_on CHR ''/'' u = s # post \<Longrightarrow> s \<noteq> ''spaces''"
proof
  assume u: "is_url u" and seg: "split_on CHR ''/'' u = s # post" and s: "s = ''spaces''"
  have "prefix ''spaces'' u"
    using first_segment_prefix [OF seg] s by simp
  then obtain t where "u = ''spaces'' @ t"
    by (auto simp: prefix_def)
  with u show False
    by (auto simp: is_url_def)
qed

lemma modern_needs_pages: "modern_page_id u = Some d \<Longrightarrow> sublist ''/pages/'' u"
proof -
  assume "modern_page_id u = Some d"
  then obtain pre key post where
    "split_on CHR ''/'' u = pre @ ''spaces'' # key # ''pages'' # d # post"
    using find_modern_Some unfolding modern_page_id_def by blast
  then have "split_on CHR ''/'' u = (pre @ [''spaces'', key]) @ ''pages'' # (d # post)"
    by simp
  then have "sublist (CHR ''/'' # ''pages'' @ [CHR ''/'']) u"
    by (rule inner_segment_between_slashes) simp_all
  then show ?thesis by simp
qed

lemma modern_needs_spaces:
  assumes "modern_page_id u = Some d" and "is_url u"
  shows "sublist ''/spaces/'' u"
proof -
  obtain pre key post where
    segs: "split_on CHR ''/'' u = pre @ ''spaces'' # (key # ''pages'' # d # post)"
    using find_modern_Some assms(1) unfolding modern_page_id_def by blast
  have "pre \<noteq> []"
  proof
    assume "pre = []"
    with segs have "split_on CHR ''/'' u = ''spaces'' # (key # ''pages'' # d # post)"
      by simp
    from url_first_segment [OF assms(2) this] show False by simp
  qed
  with segs have "sublist (CHR ''/'' # ''spaces'' @ [CHR ''/'']) u"
    by (intro inner_segment_between_slashes [OF segs]) simp_all
  then show ?thesis by simp
qed

lemma not_modern:
  "is_url u \<Longrightarrow> \<not> (sublist ''/spaces/'' u \<and> sublist ''/pages/'' u) \<Longrightarrow>
   modern_page_id u = None"
  using modern_needs_pages modern_needs_spaces by (cases "modern_page_id u") auto

lemma after_first_None: "\<not> sublist x u \<Longrightarrow> after_first x u = None"
  by (induction u) (auto simp: sublist_Cons_right)

lemma not_legacy: "\<not> sublist ''?pageId='' u \<Longrightarrow> legacy_page_id u = None"
  by (simp add: legacy_page_id_def after_first_None)

lemma no_spaces_segment:
  assumes "is_url base" and "\<not> sublist ''/spaces/'' (base @ ''/'')"
  shows "''spaces'' \<notin> set (split_on CHR ''/'' base)"
proof
  assume "''spaces'' \<in> set (split_on CHR ''/'' base)"
  then obtain pre post where segs: "split_on CHR ''/'' base = pre @ ''spaces'' # post"
    by (auto simp: in_set_conv_decomp)
  have "pre \<noteq> []"
  proof
    assume "pre = []"
    with segs have "split_on CHR ''/'' base = ''spaces'' # post"
      by simp
    from url_first_segment [OF assms(1) this] show False by simp
  qed
  from segment_between_slashes [OF segs this] assms(2) show False
    by simp
qed

lemma is_digit_alt: "is_digit = (\<lambda>c. c \<in> set ''0123456789'')"
  by (rule ext) (simp only: is_digit_def)

lemma digits_iff: "list_all is_digit d \<longleftrightarrow> set d \<subseteq> set ''0123456789''"
  unfolding is_digit_alt list_all_iff by blast

lemma takeWhile_no_leading:
  "rest = [] \<or> hd rest \<notin> D \<Longrightarrow> takeWhile (\<lambda>c. c \<in> D) rest = []"
  by (cases rest) auto

lemma no_leading_digit:
  "rest = [] \<or> hd rest \<notin> set ''0123456789'' \<Longrightarrow> takeWhile is_digit rest = []"
  unfolding is_digit_alt by (rule takeWhile_no_leading)

text \<open>
  C9. \<open>parse_page_id_from_url\<close>: \<^verbatim>\<open>None\<close> yields \<^verbatim>\<open>None\<close>; an integer yields its
  string form; a bare numeric string is returned unchanged. A modern URL
  \<^verbatim>\<open>.../spaces/<KEY>/pages/<digits>/<slug>\<close>, whose part before \<^verbatim>\<open>/spaces/\<close> has no
  \<^verbatim>\<open>spaces\<close> segment of its own, yields the digits. A legacy URL
  \<^verbatim>\<open>...?pageId=<digits>\<close>, possibly followed by text that does not start with a digit,
  yields those digits, provided it does not contain both \<^verbatim>\<open>/spaces/\<close> and
  \<^verbatim>\<open>/pages/\<close>. A URL that contains neither both of \<^verbatim>\<open>/spaces/\<close> and \<^verbatim>\<open>/pages/\<close>
  nor \<^verbatim>\<open>?pageId=\<close> is not a Confluence page URL: it is returned unchanged with a
  warning logged. All conditions are on the text of the URL.
\<close>

theorem parse_page_id_from_url_cases:
  "parse_page_id_from_url None = (None, [])
   \<and> parse_page_id_from_url (Some (IdInt n)) = (Some (str_int n), [])
   \<and> (s \<noteq> [] \<and> set s \<subseteq> set ''0123456789'' \<longrightarrow>
        parse_page_id_from_url (Some (IdStr s)) = (Some s, []))
   \<and> ((prefix ''http://'' base \<or> prefix ''https://'' base)
        \<and> \<not> sublist ''/spaces/'' (base @ ''/'') \<and> CHR ''/'' \<notin> set key
        \<and> d \<noteq> [] \<and> set d \<subseteq> set ''0123456789'' \<longrightarrow>
        parse_page_id_from_url
          (Some (IdStr (base @ ''/spaces/'' @ key @ ''/pages/'' @ d @ ''/'' @ slug)))
          = (Some d, []))
   \<and> ((prefix ''http://'' stem \<or> prefix ''https://'' stem) \<and> CHR ''?'' \<notin> set stem
        \<and> i \<noteq> [] \<and> set i \<subseteq> set ''0123456789''
        \<and> (rest = [] \<or> hd rest \<notin> set ''0123456789'')
        \<and> \<not> (sublist ''/spaces/'' (stem @ ''?pageId='' @ i @ rest)
              \<and> sublist ''/pages/'' (stem @ ''?pageId='' @ i @ rest)) \<longrightarrow>
        parse_page_id_from_url (Some (IdStr (stem @ ''?pageId='' @ i @ rest))) = (Some i, []))
   \<and> ((prefix ''http://'' u \<or> prefix ''https://'' u)
        \<and> \<not> (sublist ''/spaces/'' u \<and> sublist ''/pages/'' u)
        \<and> \<not> sublist ''?pageId='' u \<longrightarrow>
        parse_page_id_from_url (Some (IdStr u)) = (Some u, [WARNING]))"
proof (intro conjI impI)
  show "parse_page_id_from_url None = (None, [])"
    by (simp add: parse_page_id_from_url_def)
  show "parse_page_id_from_url (Some (IdInt n)) = (Some (str_int n), [])"
    by (simp add: parse_page_id_from_url_def)
next
  assume "s \<noteq> [] \<and> set s \<subseteq> set ''0123456789''"
  then have "\<not> is_url s"
    using digits_not_url digits_iff by blast
  then show "parse_page_id_from_url (Some (IdStr s)) = (Some s, [])"
    by (simp add: parse_page_id_from_url_def)
next
  assume h: "(prefix ''http://'' base \<or> prefix ''https://'' base)
        \<and> \<not> sublist ''/spaces/'' (base @ ''/'') \<and> CHR ''/'' \<notin> set key
        \<and> d \<noteq> [] \<and> set d \<subseteq> set ''0123456789''"
  let ?url = "base @ ''/spaces/'' @ key @ ''/pages/'' @ d @ ''/'' @ slug"
  have b: "is_url base"
    using h unfolding is_url_def by blast
  have "''spaces'' \<notin> set (split_on CHR ''/'' base)"
    using no_spaces_segment [OF b] h by blast
  moreover have "list_all is_digit d"
    using h digits_iff by blast
  ultimately have "modern_page_id ?url = Some d"
    using h modern_page_id_form by blast
  moreover have "is_url ?url"
    using b is_url_append by blast
  ultimately show "parse_page_id_from_url (Some (IdStr ?url)) = (Some d, [])"
    by (simp add: parse_page_id_from_url_def)
next
  assume h: "(prefix ''http://'' stem \<or> prefix ''https://'' stem) \<and> CHR ''?'' \<notin> set stem
        \<and> i \<noteq> [] \<and> set i \<subseteq> set ''0123456789''
        \<and> (rest = [] \<or> hd rest \<notin> set ''0123456789'')
        \<and> \<not> (sublist ''/spaces/'' (stem @ ''?pageId='' @ i @ rest)
              \<and> sublist ''/pages/'' (stem @ ''?pageId='' @ i @ rest))"
  let ?url = "stem @ ''?pageId='' @ i @ rest"
  have "is_url stem"
    using h unfolding is_url_def by blast
  then have u: "is_url ?url"
    using is_url_append by blast
  have m: "modern_page_id ?url = None"
    using not_modern [OF u] h by blast
  have "list_all is_digit i"
    using h digits_iff by blast
  moreover have "takeWhile is_digit rest = []"
    using h no_leading_digit by blast
  ultimately have "legacy_page_id ?url = Some i"
    using h legacy_page_id_form by blast
  with u m show "parse_page_id_from_url (Some (IdStr ?url)) = (Some i, [])"
    by (simp add: parse_page_id_from_url_def)
next
  assume h: "(prefix ''http://'' u \<or> prefix ''https://'' u)
        \<and> \<not> (sublist ''/spaces/'' u \<and> sublist ''/pages/'' u)
        \<and> \<not> sublist ''?pageId='' u"
  have u: "is_url u"
    using h unfolding is_url_def by blast
  have "modern_page_id u = None"
    using not_modern [OF u] h by blast
  moreover have "legacy_page_id u = None"
    using not_legacy h by blast
  ultimately show "parse_page_id_from_url (Some (IdStr u)) = (Some u, [WARNING])"
    using u by (simp add: parse_page_id_from_url_def)
qed

text \<open>
  The cases of \<^verbatim>\<open>test_confluence_helpers.py\<close>, and a URL with a \<^verbatim>\<open>spaces\<close> segment
  but no \<^verbatim>\<open>pages\<close> segment, which is returned unchanged.
\<close>

theorem parse_page_id_from_url_cases_witness:
  "parse_page_id_from_url
     (Some (IdStr ''https://eruditis.atlassian.net/wiki/spaces/TEAM/pages/123456789/Page+Title''))
     = (Some ''123456789'', [])
   \<and> parse_page_id_from_url
     (Some (IdStr ''https://site.atlassian.net/wiki/pages/viewpage.action?pageId=987654''))
     = (Some ''987654'', [])
   \<and> parse_page_id_from_url (Some (IdStr ''123456'')) = (Some ''123456'', [])
   \<and> parse_page_id_from_url (Some (IdInt 123456)) = (Some ''123456'', [])
   \<and> parse_page_id_from_url None = (None, [])
   \<and> parse_page_id_from_url (Some (IdStr ''https://example.com/not-a-confluence-url''))
     = (Some ''https://example.com/not-a-confluence-url'', [WARNING])
   \<and> parse_page_id_from_url (Some (IdStr ''https://example.com/spaces/x/blog/2024/post''))
     = (Some ''https://example.com/spaces/x/blog/2024/post'', [WARNING])"
proof -
  note modern_case = parse_page_id_from_url_cases
      [where n = 123456 and s = "''123456''" and base = "''https://eruditis.atlassian.net/wiki''"
         and key = "''TEAM''" and d = "''123456789''" and slug = "''Page+Title''"
         and stem = "''https://site.atlassian.net/wiki/pages/viewpage.action''"
         and i = "''987654''" and rest = "''''"
         and u = "''https://example.com/not-a-confluence-url''"]
  note blog_case = parse_page_id_from_url_cases
      [where u = "''https://example.com/spaces/x/blog/2024/post''"]
  have n: "str_int 123456 = ''123456''"
    by (simp add: str_int_def str_nat.simps digit_char_def)
  have h1: "(prefix ''http://'' ''https://eruditis.atlassian.net/wiki''
              \<or> prefix ''https://'' ''https://eruditis.atlassian.net/wiki'')
            \<and> \<not> sublist ''/spaces/'' (''https://eruditis.atlassian.net/wiki'' @ ''/'')
            \<and> CHR ''/'' \<notin> set ''TEAM''
            \<and> ''123456789'' \<noteq> [] \<and> set ''123456789'' \<subseteq> set ''0123456789''"
    by code_simp
  have h2: "(prefix ''http://'' ''https://site.atlassian.net/wiki/pages/viewpage.action''
              \<or> prefix ''https://'' ''https://site.atlassian.net/wiki/pages/viewpage.action'')
            \<and> CHR ''?'' \<notin> set ''https://site.atlassian.net/wiki/pages/viewpage.action''
            \<and> ''987654'' \<noteq> [] \<and> set ''987654'' \<subseteq> set ''0123456789''
            \<and> ('''' = [] \<or> hd '''' \<notin> set ''0123456789'')
            \<and> \<not> (sublist ''/spaces/'' (''https://site.atlassian.net/wiki/pages/viewpage.action''
                                        @ ''?pageId='' @ ''987654'' @ '''')
                  \<and> sublist ''/pages/'' (''https://site.atlassian.net/wiki/pages/viewpage.action''
                                          @ ''?pageId='' @ ''987654'' @ ''''))"
    by code_simp
  have h3: "''123456'' \<noteq> [] \<and> set ''123456'' \<subseteq> set ''0123456789''"
    by code_simp
  have h6: "(prefix ''http://'' ''https://example.com/not-a-confluence-url''
              \<or> prefix ''https://'' ''https://example.com/not-a-confluence-url'')
            \<and> \<not> (sublist ''/spaces/'' ''https://example.com/not-a-confluence-url''
                  \<and> sublist ''/pages/'' ''https://example.com/not-a-confluence-url'')
            \<and> \<not> sublist ''?pageId='' ''https://example.com/not-a-confluence-url''"
    by code_simp
  have h7: "(prefix ''http://'' ''https://example.com/spaces/x/blog/2024/post''
              \<or> prefix ''https://'' ''https://example.com/spaces/x/blog/2024/post'')
            \<and> \<not> (sublist ''/spaces/'' ''https://example.com/spaces/x/blog/2024/post''
                  \<and> sublist ''/pages/'' ''https://example.com/spaces/x/blog/2024/post'')
            \<and> \<not> sublist ''?pageId='' ''https://example.com/spaces/x/blog/2024/post''"
    by code_simp
  from modern_case have
    "parse_page_id_from_url
       (Some (IdStr (''https://eruditis.atlassian.net/wiki'' @ ''/spaces/'' @ ''TEAM'' @ ''/pages/''
                     @ ''123456789'' @ ''/'' @ ''Page+Title''))) = (Some ''123456789'', [])"
    using h1 by blast
  then have c1: "parse_page_id_from_url
     (Some (IdStr ''https://eruditis.atlassian.net/wiki/spaces/TEAM/pages/123456789/Page+Title''))
     = (Some ''123456789'', [])"
    by simp
  from modern_case have
    "parse_page_id_from_url
       (Some (IdStr (''https://site.atlassian.net/wiki/pages/viewpage.action'' @ ''?pageId=''
                     @ ''987654'' @ ''''))) = (Some ''987654'', [])"
    using h2 by blast
  then have c2: "parse_page_id_from_url
     (Some (IdStr ''https://site.atlassian.net/wiki/pages/viewpage.action?pageId=987654''))
     = (Some ''987654'', [])"
    by simp
  from modern_case have c3:
    "parse_page_id_from_url (Some (IdStr ''123456'')) = (Some ''123456'', [])"
    using h3 by blast
  from modern_case have "parse_page_id_from_url (Some (IdInt 123456)) = (Some (str_int 123456), [])"
    by blast
  then have c4: "parse_page_id_from_url (Some (IdInt 123456)) = (Some ''123456'', [])"
    by (simp only: n)
  from modern_case have c5: "parse_page_id_from_url None = (None, [])"
    by blast
  from modern_case have c6:
    "parse_page_id_from_url (Some (IdStr ''https://example.com/not-a-confluence-url''))
     = (Some ''https://example.com/not-a-confluence-url'', [WARNING])"
    using h6 by blast
  from blog_case have c7:
    "parse_page_id_from_url (Some (IdStr ''https://example.com/spaces/x/blog/2024/post''))
     = (Some ''https://example.com/spaces/x/blog/2024/post'', [WARNING])"
    using h7 by blast
  show ?thesis
    using c1 c2 c3 c4 c5 c6 c7 by blast
qed

end
